theory Spec2Isabelle
  imports Complex_Main
begin

section \<open>The subprocess, as os/exec reports it\<close>

text \<open>
  \<^verbatim>\<open>main.go\<close> runs \<^verbatim>\<open>iperf3\<close> through \<^verbatim>\<open>exec.Command\<close> and \<^verbatim>\<open>cmd.Run\<close>. What the
  operating system does with the child is outside the program, so it is an input of the
  model: a \<open>run_outcome\<close> says whether the child could be started and, when it could, how
  it ended, whether copying its output into the buffer failed, and what the buffer holds.

  The contract of \<^verbatim>\<open>Run\<close> is the documented one of \<^verbatim>\<open>os/exec\<close>: the error is nil when the
  command runs, its output is copied without a problem and it exits with status zero; a
  command that starts and does not complete successfully gives an \<^verbatim>\<open>*ExitError\<close> holding
  the \<^verbatim>\<open>ProcessState\<close>; a copying problem is reported only when there is no exit error.
  \<^verbatim>\<open>ProcessState.ExitCode\<close> is the exit status, and -1 for a process that was ended by a
  signal or never started (a nil \<^verbatim>\<open>ProcessState\<close>).
\<close>

datatype process_state = Exited int | Signaled

datatype number = Number (ParseFloat64: "real option") (ParseFloat32: "real option")
  (ParseInt: "int option")

datatype json =
    JNull
  | JBool bool
  | JNumber number
  | JString string
  | JArray "json list"
  | JObject "(string \<times> json) list"

datatype document = NotJSON | JSON json

datatype run_outcome =
    StartFails string
  | Completes process_state "string option" document

datatype run_error = StartError string | ExitError process_state | CopyError string

fun Success :: "process_state \<Rightarrow> bool" where
  "Success (Exited c) = (c = 0)"
| "Success Signaled = False"

fun ExitCode :: "process_state option \<Rightarrow> int" where
  "ExitCode None = - 1"
| "ExitCode (Some (Exited c)) = c"
| "ExitCode (Some Signaled) = - 1"

fun Run :: "run_outcome \<Rightarrow> run_error option" where
  "Run (StartFails msg) = Some (StartError msg)"
| "Run (Completes st copy out) =
     (if \<not> Success st then Some (ExitError st)
      else case copy of Some msg \<Rightarrow> Some (CopyError msg) | None \<Rightarrow> None)"

fun ProcessState :: "run_outcome \<Rightarrow> process_state option" where
  "ProcessState (StartFails msg) = None"
| "ProcessState (Completes st copy out) = Some st"

fun Stdout :: "run_outcome \<Rightarrow> document" where
  "Stdout (StartFails msg) = NotJSON"
| "Stdout (Completes st copy out) = out"

type_synonym exec_env = "string list \<Rightarrow> run_outcome"

definition Command :: "string \<Rightarrow> string list \<Rightarrow> string list" where
  "Command name args = name # args"


section \<open>The report and its decoding\<close>

text \<open>
  The two structs of \<^verbatim>\<open>main.go\<close>. The fields of type \<^verbatim>\<open>float32\<close> and \<^verbatim>\<open>float64\<close> hold
  reals here: the program copies these numbers and never computes with them. Both
  structs have a field \<^verbatim>\<open>End\<close>; the one of the summary is written
  \<open>IPerf3Summary.End\<close>, the anonymous struct of the result is \<open>IPerf3End\<close>.
\<close>

record IPerf3Summary =
  Start :: real
  End :: real
  Seconds :: real
  Bytes :: int
  BitsPerSecond :: real
  Retransmits :: real

record IPerf3End =
  SumSent :: IPerf3Summary
  SumReceived :: IPerf3Summary

record IPerf3Result =
  Error :: string
  End :: IPerf3End

definition zero_summary :: IPerf3Summary where
  "zero_summary = \<lparr>Start = 0, End = 0, Seconds = 0, Bytes = 0, BitsPerSecond = 0, Retransmits = 0\<rparr>"

definition zero_end :: IPerf3End where
  "zero_end = \<lparr>SumSent = zero_summary, SumReceived = zero_summary\<rparr>"

definition zero_result :: IPerf3Result where
  "zero_result = \<lparr>Error = [], End = zero_end\<rparr>"

text \<open>
  \<^verbatim>\<open>json.Unmarshal\<close> into a struct, as \<^verbatim>\<open>encoding/json\<close> documents it. The text of
  the output is abstracted to the JSON value it spells (\<open>NotJSON\<close> when it spells none,
  which is the decoder's syntax error), and a number token to what \<^verbatim>\<open>strconv\<close> makes of
  it at each of the three numeric types of the structs (\<open>None\<close>: out of range, or not an
  integer literal). The binding of a value to the struct is modelled:
  \<^item> the members of an object are stored in their order, so a later duplicate of a key
    stores over an earlier one;
  \<^item> a key selects the field whose tag equals it under simple case folding; a key that
    selects no field is skipped. Strings are sequences of UTF-8 bytes, and \<open>foldName\<close>
    folds what can fold to a letter of a tag: an ASCII letter to its lower case, the long
    s (U+017F, the bytes C5 BF) to \<open>s\<close> and the Kelvin sign (U+212A, the bytes E2 84 AA)
    to \<open>k\<close>;
  \<^item> \<^verbatim>\<open>null\<close> leaves a field of these types as it is;
  \<^item> a value of another JSON type than the field's is an \<^verbatim>\<open>UnmarshalTypeError\<close>.
  The decoder goes on after a type error and returns the first one; \<^verbatim>\<open>ExecIPerf3\<close>
  drops the struct whenever an error is returned, so the model stops at the first error.
\<close>

datatype json_error = SyntaxError | UnmarshalTypeError

definition to_lower :: "char \<Rightarrow> char" where
  "to_lower c =
     (let n = (of_char c :: nat) in if 65 \<le> n \<and> n \<le> 90 then char_of (n + 32) else c)"

fun foldName :: "string \<Rightarrow> string" where
  "foldName [] = []"
| "foldName (c # cs) =
     (if c = CHR 0xC5 \<and> take 1 cs = [CHR 0xBF] then CHR ''s'' # foldName (drop 1 cs)
      else if c = CHR 0xE2 \<and> take 2 cs = [CHR 0x84, CHR 0xAA] then CHR ''k'' # foldName (drop 2 cs)
      else to_lower c # foldName cs)"

fun decode_float64 :: "json \<Rightarrow> real \<Rightarrow> json_error + real" where
  "decode_float64 JNull cur = Inr cur"
| "decode_float64 (JNumber n) cur =
     (case ParseFloat64 n of Some v \<Rightarrow> Inr v | None \<Rightarrow> Inl UnmarshalTypeError)"
| "decode_float64 _ cur = Inl UnmarshalTypeError"

fun decode_float32 :: "json \<Rightarrow> real \<Rightarrow> json_error + real" where
  "decode_float32 JNull cur = Inr cur"
| "decode_float32 (JNumber n) cur =
     (case ParseFloat32 n of Some v \<Rightarrow> Inr v | None \<Rightarrow> Inl UnmarshalTypeError)"
| "decode_float32 _ cur = Inl UnmarshalTypeError"

fun decode_int :: "json \<Rightarrow> int \<Rightarrow> json_error + int" where
  "decode_int JNull cur = Inr cur"
| "decode_int (JNumber n) cur =
     (case ParseInt n of Some v \<Rightarrow> Inr v | None \<Rightarrow> Inl UnmarshalTypeError)"
| "decode_int _ cur = Inl UnmarshalTypeError"

fun decode_string :: "json \<Rightarrow> string \<Rightarrow> json_error + string" where
  "decode_string JNull cur = Inr cur"
| "decode_string (JString s) cur = Inr s"
| "decode_string _ cur = Inl UnmarshalTypeError"

fun decode_members ::
  "(string \<times> json \<Rightarrow> 's \<Rightarrow> json_error + 's) \<Rightarrow> (string \<times> json) list \<Rightarrow> 's \<Rightarrow> json_error + 's"
where
  "decode_members field [] s = Inr s"
| "decode_members field (kv # kvs) s =
     (case field kv s of Inl e \<Rightarrow> Inl e | Inr s' \<Rightarrow> decode_members field kvs s')"

definition summary_field :: "string \<times> json \<Rightarrow> IPerf3Summary \<Rightarrow> json_error + IPerf3Summary" where
  "summary_field kv s =
     (let k = foldName (fst kv); v = snd kv in
      if k = ''start'' then map_sum id (\<lambda>x. s\<lparr>Start := x\<rparr>) (decode_float32 v (Start s))
      else if k = ''end'' then map_sum id (\<lambda>x. s\<lparr>IPerf3Summary.End := x\<rparr>)
             (decode_float32 v (IPerf3Summary.End s))
      else if k = ''seconds'' then map_sum id (\<lambda>x. s\<lparr>Seconds := x\<rparr>) (decode_float32 v (Seconds s))
      else if k = ''bytes'' then map_sum id (\<lambda>x. s\<lparr>Bytes := x\<rparr>) (decode_int v (Bytes s))
      else if k = ''bits_per_second''
        then map_sum id (\<lambda>x. s\<lparr>BitsPerSecond := x\<rparr>) (decode_float64 v (BitsPerSecond s))
      else if k = ''retransmits''
        then map_sum id (\<lambda>x. s\<lparr>Retransmits := x\<rparr>) (decode_float64 v (Retransmits s))
      else Inr s)"

fun decode_summary :: "json \<Rightarrow> IPerf3Summary \<Rightarrow> json_error + IPerf3Summary" where
  "decode_summary JNull s = Inr s"
| "decode_summary (JObject kvs) s = decode_members summary_field kvs s"
| "decode_summary _ s = Inl UnmarshalTypeError"

definition end_field :: "string \<times> json \<Rightarrow> IPerf3End \<Rightarrow> json_error + IPerf3End" where
  "end_field kv e =
     (let k = foldName (fst kv); v = snd kv in
      if k = ''sum_sent'' then map_sum id (\<lambda>x. e\<lparr>SumSent := x\<rparr>) (decode_summary v (SumSent e))
      else if k = ''sum_received''
        then map_sum id (\<lambda>x. e\<lparr>SumReceived := x\<rparr>) (decode_summary v (SumReceived e))
      else Inr e)"

fun decode_end :: "json \<Rightarrow> IPerf3End \<Rightarrow> json_error + IPerf3End" where
  "decode_end JNull e = Inr e"
| "decode_end (JObject kvs) e = decode_members end_field kvs e"
| "decode_end _ e = Inl UnmarshalTypeError"

definition result_field :: "string \<times> json \<Rightarrow> IPerf3Result \<Rightarrow> json_error + IPerf3Result" where
  "result_field kv r =
     (let k = foldName (fst kv); v = snd kv in
      if k = ''error'' then map_sum id (\<lambda>x. r\<lparr>Error := x\<rparr>) (decode_string v (Error r))
      else if k = ''end''
        then map_sum id (\<lambda>x. r\<lparr>End := x\<rparr>) (decode_end v (End r))
      else Inr r)"

fun decode_result :: "json \<Rightarrow> IPerf3Result \<Rightarrow> json_error + IPerf3Result" where
  "decode_result JNull r = Inr r"
| "decode_result (JObject kvs) r = decode_members result_field kvs r"
| "decode_result _ r = Inl UnmarshalTypeError"

fun Unmarshal :: "document \<Rightarrow> IPerf3Result \<Rightarrow> json_error + IPerf3Result" where
  "Unmarshal NotJSON r = Inl SyntaxError"
| "Unmarshal (JSON v) r = decode_result v r"


section \<open>ExecIPerf3\<close>

text \<open>
  An error value records which \<^verbatim>\<open>return nil, err\<close> of \<^verbatim>\<open>ExecIPerf3\<close> made it:
  \<open>RunError\<close> is the error of \<^verbatim>\<open>cmd.Run\<close>, \<open>ExitCodeError n\<close> is
  \<^verbatim>\<open>fmt.Errorf("exit code: %d", n)\<close>, \<open>UnmarshalError\<close> is the error of
  \<^verbatim>\<open>json.Unmarshal\<close>, and \<open>ToolError msg\<close> is \<^verbatim>\<open>errors.New(msg)\<close>, the error whose
  message is \<open>msg\<close>.
\<close>

datatype exec_error =
    RunError run_error
  | ExitCodeError int
  | UnmarshalError json_error
  | ToolError string

definition ExecIPerf3 :: "exec_env \<Rightarrow> string \<Rightarrow> string \<Rightarrow> exec_error + IPerf3Result" where
  "ExecIPerf3 env server port =
     (let cmd = env (Command ''iperf3''
                  [''--json'', ''-c'', server, ''-p'', port, ''--connect-timeout'', ''1000''])
      in case Run cmd of
           Some err \<Rightarrow> Inl (RunError err)
         | None \<Rightarrow>
             (let exitCode = ExitCode (ProcessState cmd) in
              if exitCode \<noteq> 0 then Inl (ExitCodeError exitCode)
              else case Unmarshal (Stdout cmd) zero_result of
                     Inl err \<Rightarrow> Inl (UnmarshalError err)
                   | Inr result \<Rightarrow>
                       if Error result \<noteq> [] then Inl (ToolError (Error result))
                       else Inr result))"


section \<open>The metrics\<close>

text \<open>
  A \<^verbatim>\<open>GaugeVec\<close> of the Prometheus client holds one gauge for each value of its label
  that has been used: \<^verbatim>\<open>WithLabelValues(l)\<close> makes the gauge of \<open>l\<close> (at zero) when
  there is none, \<^verbatim>\<open>Set\<close> and \<^verbatim>\<open>Add\<close> then write it, and \<^verbatim>\<open>Reset\<close> deletes every
  gauge of the vector. A vector is a map from the label's value to the gauge's value;
  the values are reals, as in the report. The one sum the program computes is the
  \<^verbatim>\<open>Add(1)\<close> of the error counter, which a \<^verbatim>\<open>float64\<close> does exactly for every count
  below 2^53.
\<close>

type_synonym GaugeVec = "string \<rightharpoonup> real"

definition NewGaugeVec :: GaugeVec where
  "NewGaugeVec = Map.empty"

definition WithLabelValues_Set :: "string \<Rightarrow> real \<Rightarrow> GaugeVec \<Rightarrow> GaugeVec" where
  "WithLabelValues_Set l v vec = vec(l \<mapsto> v)"

definition WithLabelValues_Add :: "string \<Rightarrow> real \<Rightarrow> GaugeVec \<Rightarrow> GaugeVec" where
  "WithLabelValues_Add l d vec = vec(l \<mapsto> (case vec l of None \<Rightarrow> 0 | Some v \<Rightarrow> v) + d)"

definition Reset :: "GaugeVec \<Rightarrow> GaugeVec" where
  "Reset vec = Map.empty"

record metrics =
  errorCount :: GaugeVec
  sentBitPerSec :: GaugeVec
  sentRetransmits :: GaugeVec
  receivedBitPerSec :: GaugeVec
  receivedRetransmits :: GaugeVec

definition new_metrics :: metrics where
  "new_metrics = \<lparr>errorCount = NewGaugeVec, sentBitPerSec = NewGaugeVec,
     sentRetransmits = NewGaugeVec, receivedBitPerSec = NewGaugeVec,
     receivedRetransmits = NewGaugeVec\<rparr>"

text \<open>
  The exposition: \<^verbatim>\<open>promhttp.Handler()\<close> writes the gauges of the vectors that were
  registered with the default registry, under their fully qualified names
  (namespace, subsystem and name joined by an underscore) and their label.
  \<open>registered\<close> is the argument list of \<^verbatim>\<open>prometheus.MustRegister\<close> in \<^verbatim>\<open>main\<close>.
\<close>

datatype collector =
  ErrorCount | SentBitPerSec | SentRetransmits | ReceivedBitPerSec | ReceivedRetransmits

fun fqName :: "collector \<Rightarrow> string" where
  "fqName ErrorCount = ''network_iperf3_error_count''"
| "fqName SentBitPerSec = ''network_iperf3_sent_bits_per_second''"
| "fqName SentRetransmits = ''network_iperf3_sent_retransmits''"
| "fqName ReceivedBitPerSec = ''network_iperf3_received_bits_per_second''"
| "fqName ReceivedRetransmits = ''network_iperf3_received_retransmits''"

fun vec_of :: "metrics \<Rightarrow> collector \<Rightarrow> GaugeVec" where
  "vec_of m ErrorCount = errorCount m"
| "vec_of m SentBitPerSec = sentBitPerSec m"
| "vec_of m SentRetransmits = sentRetransmits m"
| "vec_of m ReceivedBitPerSec = receivedBitPerSec m"
| "vec_of m ReceivedRetransmits = receivedRetransmits m"

definition registered :: "collector list" where
  "registered = [SentBitPerSec, SentRetransmits, ReceivedBitPerSec, ReceivedRetransmits]"

definition exposition :: "metrics \<Rightarrow> string \<Rightarrow> string \<rightharpoonup> real" where
  "exposition m name l =
     (case find (\<lambda>c. fqName c = name) registered of
        None \<Rightarrow> None
      | Some c \<Rightarrow> vec_of m c l)"


section \<open>The sampler\<close>

text \<open>
  One turn of the \<^verbatim>\<open>for\<close> loop of the goroutine in \<^verbatim>\<open>main\<close>. It returns the metrics
  as the turn leaves them, the error it logged (if any) and the duration it slept, in
  nanoseconds as \<^verbatim>\<open>time.Duration\<close> counts them. The loop never ends; \<open>sampler\<close> runs
  its first turns, one for each environment of the list.
\<close>

definition Second :: int where
  "Second = 1000000000"

record turn =
  store :: metrics
  logged :: "exec_error option"
  slept :: int

definition sampler_turn :: "exec_env \<Rightarrow> string \<Rightarrow> string \<Rightarrow> int \<Rightarrow> metrics \<Rightarrow> turn" where
  "sampler_turn env server port execInterval m =
     (case ExecIPerf3 env server port of
        Inl err \<Rightarrow>
          \<lparr>store = m\<lparr>errorCount := WithLabelValues_Add server 1 (errorCount m),
                       sentBitPerSec := Reset (sentBitPerSec m),
                       sentRetransmits := Reset (sentRetransmits m),
                       receivedBitPerSec := Reset (receivedBitPerSec m),
                       receivedRetransmits := Reset (receivedRetransmits m)\<rparr>,
           logged = Some err,
           slept = Second * 10\<rparr>
      | Inr result \<Rightarrow>
          \<lparr>store = m\<lparr>sentBitPerSec :=
                         WithLabelValues_Set server (BitsPerSecond (SumSent (End result)))
                           (sentBitPerSec m),
                       sentRetransmits :=
                         WithLabelValues_Set server (Retransmits (SumSent (End result)))
                           (sentRetransmits m),
                       receivedBitPerSec :=
                         WithLabelValues_Set server (BitsPerSecond (SumReceived (End result)))
                           (receivedBitPerSec m),
                       receivedRetransmits :=
                         WithLabelValues_Set server (Retransmits (SumReceived (End result)))
                           (receivedRetransmits m)\<rparr>,
           logged = None,
           slept = execInterval\<rparr>)"

fun sampler :: "exec_env list \<Rightarrow> string \<Rightarrow> string \<Rightarrow> int \<Rightarrow> metrics \<Rightarrow> metrics" where
  "sampler [] server port execInterval m = m"
| "sampler (env # envs) server port execInterval m =
     sampler envs server port execInterval (store (sampler_turn env server port execInterval m))"


section \<open>The process\<close>

text \<open>
  \<^verbatim>\<open>main\<close> parses the interval, starts the sampler and serves the metrics. The parser
  \<^verbatim>\<open>time.ParseDuration\<close> is a parameter. After the start the process meets events: a
  turn of the sampler, or \<^verbatim>\<open>http.ListenAndServe\<close> returning (it returns only with an
  error). \<^verbatim>\<open>log.Fatal\<close> ends the process; nothing happens to a process that has ended.
\<close>

record flags =
  server_flag :: string
  port_flag :: string
  interval_flag :: string
  addr_flag :: string








section \<open>Observations and test inputs\<close>

text \<open>
  What the statements below read off a store: the four gauges of a target, the same four
  as the exposition shows them, the four numbers of a report, and the error counter of a
  target, read as zero while it has no gauge.
\<close>

definition gauges :: "metrics \<Rightarrow> string \<Rightarrow> real option \<times> real option \<times> real option \<times> real option" where
  "gauges m l = (sentBitPerSec m l, sentRetransmits m l, receivedBitPerSec m l, receivedRetransmits m l)"

definition published :: "metrics \<Rightarrow> string \<Rightarrow> real option \<times> real option \<times> real option \<times> real option" where
  "published m l =
     (exposition m (fqName SentBitPerSec) l, exposition m (fqName SentRetransmits) l,
      exposition m (fqName ReceivedBitPerSec) l, exposition m (fqName ReceivedRetransmits) l)"



definition absent :: "real option \<times> real option \<times> real option \<times> real option" where
  "absent = (None, None, None, None)"

definition error_counter :: "metrics \<Rightarrow> string \<Rightarrow> real" where
  "error_counter m l = (case errorCount m l of None \<Rightarrow> 0 | Some v \<Rightarrow> v)"


text \<open>
  Environments in which \<^verbatim>\<open>iperf3\<close> starts, writes \<open>out\<close> and exits with status \<open>c\<close>, and
  one in which it cannot be started; the token of an integer that all three numeric types
  hold exactly; and the outputs of scenarios A, D and E of the specification.
\<close>

definition exits_with :: "int \<Rightarrow> document \<Rightarrow> exec_env" where
  "exits_with c out = (\<lambda>argv. Completes (Exited c) None out)"

definition not_found :: exec_env where
  "not_found = (\<lambda>argv. StartFails ''exec: \"iperf3\": executable file not found in $PATH'')"

definition int_token :: "int \<Rightarrow> json" where
  "int_token n = JNumber (Number (Some (of_int n)) (Some (of_int n)) (Some n))"

definition report_doc :: "int \<Rightarrow> int \<Rightarrow> int \<Rightarrow> int \<Rightarrow> json" where
  "report_doc a b c d =
     JObject [(''end'', JObject
       [(''sum_sent'', JObject [(''bits_per_second'', int_token a), (''retransmits'', int_token b)]),
        (''sum_received'', JObject [(''bits_per_second'', int_token c), (''retransmits'', int_token d)])])]"

definition scenario_A :: json where
  "scenario_A = report_doc 1000000 2 950000 0"

definition scenario_D :: json where
  "scenario_D = JObject [(''error'', JString ''unable to connect to server''), (''end'', JObject [])]"


text \<open>
  Documents that have the expected format where they say anything: \<open>conforms\<close> holds of
  \<^verbatim>\<open>null\<close> and of an object in which every member that selects a field of the struct
  has a value of the field's type (or \<^verbatim>\<open>null\<close>), and so on inside the end section and
  the two summaries. \<open>reach path v\<close> lists the values that \<open>v\<close> gives at a path of field
  names, through every member that selects the field.
\<close>

fun members :: "json \<Rightarrow> (string \<times> json) list" where
  "members (JObject kvs) = kvs"
| "members _ = []"

definition field_values :: "string \<Rightarrow> json \<Rightarrow> json list" where
  "field_values name v = map snd (filter (\<lambda>kv. foldName (fst kv) = name) (members v))"


fun is_float64 :: "json \<Rightarrow> bool" where
  "is_float64 JNull = True"
| "is_float64 (JNumber n) = (ParseFloat64 n \<noteq> None)"
| "is_float64 _ = False"

fun is_float32 :: "json \<Rightarrow> bool" where
  "is_float32 JNull = True"
| "is_float32 (JNumber n) = (ParseFloat32 n \<noteq> None)"
| "is_float32 _ = False"

fun is_int :: "json \<Rightarrow> bool" where
  "is_int JNull = True"
| "is_int (JNumber n) = (ParseInt n \<noteq> None)"
| "is_int _ = False"

fun is_string :: "json \<Rightarrow> bool" where
  "is_string JNull = True"
| "is_string (JString s) = True"
| "is_string _ = False"

fun is_struct :: "json \<Rightarrow> bool" where
  "is_struct JNull = True"
| "is_struct (JObject kvs) = True"
| "is_struct _ = False"

definition conforms_summary :: "json \<Rightarrow> bool" where
  "conforms_summary v \<longleftrightarrow> is_struct v \<and>
     list_all is_float32 (field_values ''start'' v) \<and>
     list_all is_float32 (field_values ''end'' v) \<and>
     list_all is_float32 (field_values ''seconds'' v) \<and>
     list_all is_int (field_values ''bytes'' v) \<and>
     list_all is_float64 (field_values ''bits_per_second'' v) \<and>
     list_all is_float64 (field_values ''retransmits'' v)"

definition conforms_end :: "json \<Rightarrow> bool" where
  "conforms_end v \<longleftrightarrow> is_struct v \<and>
     list_all conforms_summary (field_values ''sum_sent'' v) \<and>
     list_all conforms_summary (field_values ''sum_received'' v)"

definition conforms :: "json \<Rightarrow> bool" where
  "conforms v \<longleftrightarrow> is_struct v \<and>
     list_all is_string (field_values ''error'' v) \<and>
     list_all conforms_end (field_values ''end'' v)"




text \<open>
  The same conditions member by member, as the decoder meets them, and two outputs that
  lack fields: the empty object, and a report with nothing but the received throughput.
\<close>

definition summary_member_ok :: "string \<times> json \<Rightarrow> bool" where
  "summary_member_ok kv \<longleftrightarrow>
     (foldName (fst kv) = ''start'' \<longrightarrow> is_float32 (snd kv)) \<and>
     (foldName (fst kv) = ''end'' \<longrightarrow> is_float32 (snd kv)) \<and>
     (foldName (fst kv) = ''seconds'' \<longrightarrow> is_float32 (snd kv)) \<and>
     (foldName (fst kv) = ''bytes'' \<longrightarrow> is_int (snd kv)) \<and>
     (foldName (fst kv) = ''bits_per_second'' \<longrightarrow> is_float64 (snd kv)) \<and>
     (foldName (fst kv) = ''retransmits'' \<longrightarrow> is_float64 (snd kv))"

definition end_member_ok :: "string \<times> json \<Rightarrow> bool" where
  "end_member_ok kv \<longleftrightarrow>
     (foldName (fst kv) = ''sum_sent'' \<longrightarrow> conforms_summary (snd kv)) \<and>
     (foldName (fst kv) = ''sum_received'' \<longrightarrow> conforms_summary (snd kv))"

definition result_member_ok :: "string \<times> json \<Rightarrow> bool" where
  "result_member_ok kv \<longleftrightarrow>
     (foldName (fst kv) = ''error'' \<longrightarrow> is_string (snd kv)) \<and>
     (foldName (fst kv) = ''end'' \<longrightarrow> conforms_end (snd kv))"

definition empty_doc :: json where
  "empty_doc = JObject []"



section \<open>What ExecIPerf3 returns\<close>


lemma exits_nonzero:
  "c \<noteq> 0 \<Longrightarrow> ExecIPerf3 (exits_with c out) server port = Inl (RunError (ExitError (Exited c)))"
  by (simp add: ExecIPerf3_def exits_with_def)

lemma exits_zero:
  "ExecIPerf3 (exits_with 0 out) server port =
     (case Unmarshal out zero_result of
        Inl err \<Rightarrow> Inl (UnmarshalError err)
      | Inr result \<Rightarrow> if Error result \<noteq> [] then Inl (ToolError (Error result)) else Inr result)"
  by (simp add: ExecIPerf3_def exits_with_def)


lemma zero_fields:
  "BitsPerSecond (SumSent (End zero_result)) = 0"
  "Retransmits (SumSent (End zero_result)) = 0"
  "BitsPerSecond (SumReceived (End zero_result)) = 0"
  "Retransmits (SumReceived (End zero_result)) = 0"
  "Error zero_result = []"
  by (simp_all add: zero_result_def zero_end_def zero_summary_def)

lemma exits_zero_not_json:
  "ExecIPerf3 (exits_with 0 NotJSON) server port = Inl (UnmarshalError SyntaxError)"
  by (simp add: exits_zero)

lemma decode_report_doc:
  "decode_result (report_doc a b c d) zero_result =
     Inr \<lparr>Error = [],
          End = \<lparr>SumSent = zero_summary\<lparr>BitsPerSecond := of_int a, Retransmits := of_int b\<rparr>,
                 SumReceived = zero_summary\<lparr>BitsPerSecond := of_int c, Retransmits := of_int d\<rparr>\<rparr>\<rparr>"
  by (simp add: report_doc_def int_token_def zero_result_def zero_end_def result_field_def
      end_field_def summary_field_def to_lower_def)

lemma decode_scenario_D:
  "decode_result scenario_D zero_result =
     Inr (zero_result\<lparr>Error := ''unable to connect to server''\<rparr>)"
  by code_simp

lemma scenario_A_succeeds:
  "ExecIPerf3 (exits_with 0 (JSON scenario_A)) server port =
     Inr \<lparr>Error = [],
          End = \<lparr>SumSent = zero_summary\<lparr>BitsPerSecond := 1000000, Retransmits := 2\<rparr>,
                 SumReceived = zero_summary\<lparr>BitsPerSecond := 950000, Retransmits := 0\<rparr>\<rparr>\<rparr>"
  by (simp add: exits_zero scenario_A_def decode_report_doc)


text \<open>
  C9. The branch of \<^verbatim>\<open>ExecIPerf3\<close> that returns \<^verbatim>\<open>fmt.Errorf("exit code: %d", exitCode)\<close>
  is never taken: whatever the subprocess does, the error returned is not that one; and
  whenever the exit code of the subprocess is not zero, \<^verbatim>\<open>cmd.Run\<close> has already returned
  an error, which is the error \<^verbatim>\<open>ExecIPerf3\<close> returns.
\<close>

theorem exit_code_branch_unreachable:
  "(\<forall>n. ExecIPerf3 env server port \<noteq> Inl (ExitCodeError n)) \<and>
   (let cmd = env (Command ''iperf3''
                [''--json'', ''-c'', server, ''-p'', port, ''--connect-timeout'', ''1000''])
    in ExitCode (ProcessState cmd) \<noteq> 0 \<longrightarrow>
       (\<exists>err. Run cmd = Some err \<and> ExecIPerf3 env server port = Inl (RunError err)))"
  unfolding ExecIPerf3_def Let_def
  apply (cases "env (Command ''iperf3''
                  [''--json'', ''-c'', server, ''-p'', port, ''--connect-timeout'', ''1000''])")
  subgoal by simp
  subgoal for st copy out
    by (cases st; cases copy) (auto split: sum.splits)
  done

theorem exit_code_branch_unreachable_witness:
  "ExitCode (ProcessState (exits_with 1 NotJSON
     [''iperf3'', ''--json'', ''-c'', ''10.0.0.1'', ''-p'', ''5201'', ''--connect-timeout'', ''1000'']))
     \<noteq> 0 \<and>
   Run (exits_with 1 NotJSON
     [''iperf3'', ''--json'', ''-c'', ''10.0.0.1'', ''-p'', ''5201'', ''--connect-timeout'', ''1000''])
     = Some (ExitError (Exited 1)) \<and>
   ExecIPerf3 (exits_with 1 NotJSON) ''10.0.0.1'' ''5201'' = Inl (RunError (ExitError (Exited 1))) \<and>
   ExecIPerf3 (exits_with 1 NotJSON) ''10.0.0.1'' ''5201'' \<noteq> Inl (ExitCodeError 1)"
  using exit_code_branch_unreachable [of "exits_with 1 NotJSON" "''10.0.0.1''" "''5201''"]
  by (simp add: exits_with_def Command_def)


text \<open>
  The classification that \<^verbatim>\<open>ExecIPerf3\<close> does make. Its checks apply in this order, and
  each returns its error and no report: an error of \<^verbatim>\<open>cmd.Run\<close> (the subprocess could not
  be started, or it started and was killed or exited with a status other than zero, its
  error then holding the process state with that status) is returned as it is; otherwise
  an output that cannot be decoded gives the decoder's error; otherwise a report with a
  non-empty error field gives the error with that message; otherwise the report is
  returned.
\<close>

lemma failure_classification:
  "(let cmd = env (Command ''iperf3''
                [''--json'', ''-c'', server, ''-p'', port, ''--connect-timeout'', ''1000''])
    in (\<forall>err. Run cmd = Some err \<longrightarrow> ExecIPerf3 env server port = Inl (RunError err)) \<and>
       (\<forall>msg. cmd = StartFails msg \<longrightarrow> Run cmd = Some (StartError msg)) \<and>
       (\<forall>st copy out. cmd = Completes st copy out \<and> ExitCode (Some st) \<noteq> 0 \<longrightarrow>
          Run cmd = Some (ExitError st)) \<and>
       (\<forall>err. Run cmd = None \<and> Unmarshal (Stdout cmd) zero_result = Inl err \<longrightarrow>
          ExecIPerf3 env server port = Inl (UnmarshalError err)) \<and>
       (\<forall>r. Run cmd = None \<and> Unmarshal (Stdout cmd) zero_result = Inr r \<and> Error r \<noteq> [] \<longrightarrow>
          ExecIPerf3 env server port = Inl (ToolError (Error r))) \<and>
       (\<forall>r. Run cmd = None \<and> Unmarshal (Stdout cmd) zero_result = Inr r \<and> Error r = [] \<longrightarrow>
          ExecIPerf3 env server port = Inr r))"
  unfolding ExecIPerf3_def Let_def
  apply (cases "env (Command ''iperf3''
                  [''--json'', ''-c'', server, ''-p'', port, ''--connect-timeout'', ''1000''])")
  subgoal by simp
  subgoal for st copy out
    by (cases st; cases copy) (auto split: sum.splits)
  done

lemma failure_classification_examples:
  "ExecIPerf3 not_found ''10.0.0.1'' ''5201''
     = Inl (RunError (StartError ''exec: \"iperf3\": executable file not found in $PATH'')) \<and>
   ExecIPerf3 (exits_with 1 (JSON scenario_A)) ''10.0.0.1'' ''5201''
     = Inl (RunError (ExitError (Exited 1))) \<and>
   ExecIPerf3 (exits_with 0 NotJSON) ''10.0.0.1'' ''5201'' = Inl (UnmarshalError SyntaxError) \<and>
   ExecIPerf3 (exits_with 0 (JSON scenario_D)) ''10.0.0.1'' ''5201''
     = Inl (ToolError ''unable to connect to server'') \<and>
   ExecIPerf3 (exits_with 0 (JSON empty_doc)) ''10.0.0.1'' ''5201'' = Inr zero_result"
  using failure_classification [of not_found "''10.0.0.1''" "''5201''"]
    failure_classification [of "exits_with 1 (JSON scenario_A)" "''10.0.0.1''" "''5201''"]
    failure_classification [of "exits_with 0 NotJSON" "''10.0.0.1''" "''5201''"]
    failure_classification [of "exits_with 0 (JSON scenario_D)" "''10.0.0.1''" "''5201''"]
    failure_classification [of "exits_with 0 (JSON empty_doc)" "''10.0.0.1''" "''5201''"]
  by (simp add: Let_def not_found_def exits_with_def decode_scenario_D empty_doc_def zero_fields)


section \<open>One turn of the sampler\<close>

lemma turn_failure:
  assumes "ExecIPerf3 env server port = Inl err"
  shows "sampler_turn env server port d m =
     \<lparr>store = m\<lparr>errorCount := (errorCount m)(server \<mapsto> error_counter m server + 1),
                  sentBitPerSec := Map.empty, sentRetransmits := Map.empty,
                  receivedBitPerSec := Map.empty, receivedRetransmits := Map.empty\<rparr>,
      logged = Some err, slept = 10000000000\<rparr>"
  using assms
  by (simp add: sampler_turn_def WithLabelValues_Add_def Reset_def error_counter_def Second_def)

lemma turn_success:
  assumes "ExecIPerf3 env server port = Inr r"
  shows "sampler_turn env server port d m =
     \<lparr>store = m\<lparr>sentBitPerSec := (sentBitPerSec m)(server \<mapsto> BitsPerSecond (SumSent (End r))),
                  sentRetransmits := (sentRetransmits m)(server \<mapsto> Retransmits (SumSent (End r))),
                  receivedBitPerSec :=
                    (receivedBitPerSec m)(server \<mapsto> BitsPerSecond (SumReceived (End r))),
                  receivedRetransmits :=
                    (receivedRetransmits m)(server \<mapsto> Retransmits (SumReceived (End r)))\<rparr>,
      logged = None, slept = d\<rparr>"
  using assms
  by (simp add: sampler_turn_def WithLabelValues_Set_def)

lemma published_gauges: "published m l = gauges m l"
  by (simp add: published_def gauges_def exposition_def registered_def)

text \<open>
  C1. A failed attempt, at a subprocess that exits with status 1: the turn adds one to the
  error counter of the target in the store and the four gauges leave the exposition, but
  the exposition shows no error counter, after this turn or in any other state of the
  store: the vector \<^verbatim>\<open>errorCount\<close> is not among the arguments of \<^verbatim>\<open>MustRegister\<close>.
\<close>

theorem error_count_not_exposed:
  "errorCount (store (sampler_turn (exits_with 1 out) server port d m)) server
     = Some (error_counter m server + 1) \<and>
   published (store (sampler_turn (exits_with 1 out) server port d m)) server = absent \<and>
   exposition (store (sampler_turn (exits_with 1 out) server port d m))
     ''network_iperf3_error_count'' server = None \<and>
   (\<forall>m' l. exposition m' ''network_iperf3_error_count'' l = None)"
proof -
  have f: "ExecIPerf3 (exits_with 1 out) server port = Inl (RunError (ExitError (Exited 1)))"
    by (simp add: exits_nonzero)
  have e: "exposition m' ''network_iperf3_error_count'' l = None" for m' l
    by (simp add: exposition_def registered_def)
  show ?thesis
    by (simp add: turn_failure [OF f] published_gauges gauges_def absent_def e)
qed



text \<open>
  C6. After a failed attempt the sampler sleeps ten seconds (\<open>Second\<close> is 10^9
  nanoseconds); after a successful one it sleeps the configured interval; so whenever the
  interval is longer than ten seconds, the sleep after a failure is strictly shorter than
  the sleep after a success.
\<close>

theorem backoff_shorter_than_interval:
  assumes "ExecIPerf3 envf server port = Inl err"
    and "ExecIPerf3 envs server port = Inr r"
  shows "slept (sampler_turn envf server port execInterval m) = 10 * Second \<and>
         Second = 1000000000 \<and>
         slept (sampler_turn envs server port execInterval m') = execInterval \<and>
         (10 * Second < execInterval \<longrightarrow>
            slept (sampler_turn envf server port execInterval m)
              < slept (sampler_turn envs server port execInterval m'))"
  by (simp add: turn_failure [OF assms(1)] turn_success [OF assms(2)] Second_def)

theorem backoff_shorter_than_interval_witness:
  "slept (sampler_turn (exits_with 1 NotJSON) ''10.0.0.1'' ''5201'' 300000000000 new_metrics)
     = 10000000000 \<and>
   slept (sampler_turn (exits_with 0 (JSON scenario_A)) ''10.0.0.1'' ''5201'' 300000000000 new_metrics)
     = 300000000000 \<and>
   slept (sampler_turn (exits_with 1 NotJSON) ''10.0.0.1'' ''5201'' 300000000000 new_metrics)
     < slept (sampler_turn (exits_with 0 (JSON scenario_A)) ''10.0.0.1'' ''5201'' 300000000000
         new_metrics)"
  using backoff_shorter_than_interval [OF exits_nonzero scenario_A_succeeds,
     of 1 NotJSON "''10.0.0.1''" "''5201''" 300000000000 new_metrics new_metrics]
  by (simp add: Second_def)

text \<open>
  C7. Scenario D: the tool exits with status 0 and its output is the object with the
  members \<^verbatim>\<open>"error": "unable to connect to server"\<close> and \<^verbatim>\<open>"end": {}\<close>. \<^verbatim>\<open>ExecIPerf3\<close>
  returns the error whose message is exactly that text and no report; the sampler logs
  it, leaves none of the four gauges of the target (whatever they were) and adds one to
  the error counter of the target.
\<close>

theorem scenario_D_is_tool_failure:
  "ExecIPerf3 (exits_with 0 (JSON scenario_D)) server port
     = Inl (ToolError ''unable to connect to server'') \<and>
   logged (sampler_turn (exits_with 0 (JSON scenario_D)) server port d m)
     = Some (ToolError ''unable to connect to server'') \<and>
   gauges (store (sampler_turn (exits_with 0 (JSON scenario_D)) server port d m)) server = absent \<and>
   published (store (sampler_turn (exits_with 0 (JSON scenario_D)) server port d m)) server = absent \<and>
   error_counter (store (sampler_turn (exits_with 0 (JSON scenario_D)) server port d m)) server
     = error_counter m server + 1"
proof -
  have f: "ExecIPerf3 (exits_with 0 (JSON scenario_D)) server port
             = Inl (ToolError ''unable to connect to server'')"
    by (simp add: exits_zero decode_scenario_D)
  show ?thesis
    by (simp add: f turn_failure [OF f] published_gauges gauges_def absent_def error_counter_def)
qed

section \<open>Runs of the sampler\<close>


lemma sampler_append:
  "sampler (envs @ [env]) server port d m =
     store (sampler_turn env server port d (sampler envs server port d m))"
  by (induction envs arbitrary: m) simp_all







text \<open>
  C5. After any number of completed turns from the start of the process, either all four
  gauge vectors are empty, or the last turn succeeded and each of the four holds exactly
  one gauge, the target's, with the value of its field in the report of that last turn.
\<close>

theorem gauges_all_or_none:
  "(sentBitPerSec (sampler envs server port d new_metrics) = Map.empty \<and>
    sentRetransmits (sampler envs server port d new_metrics) = Map.empty \<and>
    receivedBitPerSec (sampler envs server port d new_metrics) = Map.empty \<and>
    receivedRetransmits (sampler envs server port d new_metrics) = Map.empty) \<or>
   (\<exists>r. envs \<noteq> [] \<and> ExecIPerf3 (last envs) server port = Inr r \<and>
    sentBitPerSec (sampler envs server port d new_metrics) = [server \<mapsto> BitsPerSecond (SumSent (End r))] \<and>
    sentRetransmits (sampler envs server port d new_metrics) = [server \<mapsto> Retransmits (SumSent (End r))] \<and>
    receivedBitPerSec (sampler envs server port d new_metrics) = [server \<mapsto> BitsPerSecond (SumReceived (End r))] \<and>
    receivedRetransmits (sampler envs server port d new_metrics) = [server \<mapsto> Retransmits (SumReceived (End r))])"
proof (induction envs rule: rev_induct)
  case Nil
  show ?case by (simp add: new_metrics_def NewGaugeVec_def)
next
  case (snoc env envs)
  show ?case
  proof (cases "ExecIPerf3 env server port")
    case (Inl err)
    show ?thesis by (simp add: sampler_append turn_failure [OF Inl])
  next
    case (Inr r)
    from snoc.IH show ?thesis
      by (auto simp add: sampler_append turn_success [OF Inr] Inr)
  qed
qed

section \<open>The life of the process\<close>





section \<open>Decoding a document with missing fields\<close>


lemma decode_members_succeeds_iff:
  assumes "\<And>kv t. kv \<in> set kvs \<Longrightarrow> (\<exists>t'. field kv t = Inr t') \<longleftrightarrow> ok kv"
  shows "(\<exists>s'. decode_members field kvs s = Inr s') \<longleftrightarrow> list_all ok kvs"
  using assms
proof (induction kvs arbitrary: s)
  case Nil
  then show ?case by simp
next
  case (Cons kv kvs)
  have IH: "(\<exists>s'. decode_members field kvs t = Inr s') \<longleftrightarrow> list_all ok kvs" for t
    using Cons.IH Cons.prems by simp
  have hd: "(\<exists>t'. field kv t = Inr t') \<longleftrightarrow> ok kv" for t
    using Cons.prems by simp
  show ?case
  proof (cases "field kv s")
    case (Inl e)
    then show ?thesis using hd [of s] by simp
  next
    case (Inr t)
    then show ?thesis using hd [of s] IH [of t] by simp
  qed
qed

lemma decode_float64_ok: "(\<exists>x. decode_float64 v cur = Inr x) \<longleftrightarrow> is_float64 v"
  by (cases v) (auto split: option.splits)

lemma decode_float32_ok: "(\<exists>x. decode_float32 v cur = Inr x) \<longleftrightarrow> is_float32 v"
  by (cases v) (auto split: option.splits)

lemma decode_int_ok: "(\<exists>x. decode_int v cur = Inr x) \<longleftrightarrow> is_int v"
  by (cases v) (auto split: option.splits)

lemma decode_string_ok: "(\<exists>x. decode_string v cur = Inr x) \<longleftrightarrow> is_string v"
  by (cases v) auto

lemma map_sum_Inr_iff: "(\<exists>y. map_sum id f x = Inr y) \<longleftrightarrow> (\<exists>z. x = Inr z)"
  by (cases x) auto

lemma list_all_field_values:
  "list_all P (field_values name (JObject kvs)) \<longleftrightarrow>
     list_all (\<lambda>kv. foldName (fst kv) = name \<longrightarrow> P (snd kv)) kvs"
  by (induction kvs) (auto simp add: field_values_def)

lemma field_values_JNull [simp]: "field_values name JNull = []"
  by (simp add: field_values_def)

lemma summary_field_ok: "(\<exists>t'. summary_field kv t = Inr t') \<longleftrightarrow> summary_member_ok kv"
  unfolding summary_field_def Let_def summary_member_ok_def
  by (simp add: map_sum_Inr_iff decode_float64_ok decode_float32_ok decode_int_ok
      del: ex_simps)

lemma conforms_summary_members:
  "conforms_summary (JObject kvs) \<longleftrightarrow> list_all summary_member_ok kvs"
  unfolding conforms_summary_def list_all_field_values summary_member_ok_def
  by (induction kvs) auto

lemma decode_summary_ok: "(\<exists>s'. decode_summary v s = Inr s') \<longleftrightarrow> conforms_summary v"
proof (cases v)
  case (JObject kvs)
  then show ?thesis
    using decode_members_succeeds_iff [of kvs summary_field summary_member_ok s]
    by (simp add: conforms_summary_members summary_field_ok)
qed (simp_all add: conforms_summary_def)

lemma end_field_ok: "(\<exists>t'. end_field kv t = Inr t') \<longleftrightarrow> end_member_ok kv"
  unfolding end_field_def Let_def end_member_ok_def
  by (simp add: map_sum_Inr_iff decode_summary_ok del: ex_simps)

lemma conforms_end_members:
  "conforms_end (JObject kvs) \<longleftrightarrow> list_all end_member_ok kvs"
  unfolding conforms_end_def list_all_field_values end_member_ok_def
  by (induction kvs) auto

lemma decode_end_ok: "(\<exists>e'. decode_end v e = Inr e') \<longleftrightarrow> conforms_end v"
proof (cases v)
  case (JObject kvs)
  then show ?thesis
    using decode_members_succeeds_iff [of kvs end_field end_member_ok e]
    by (simp add: conforms_end_members end_field_ok)
qed (simp_all add: conforms_end_def)

lemma result_field_ok: "(\<exists>t'. result_field kv t = Inr t') \<longleftrightarrow> result_member_ok kv"
  unfolding result_field_def Let_def result_member_ok_def
  by (simp add: map_sum_Inr_iff decode_end_ok decode_string_ok del: ex_simps)

lemma conforms_members:
  "conforms (JObject kvs) \<longleftrightarrow> list_all result_member_ok kvs"
  unfolding conforms_def list_all_field_values result_member_ok_def
  by (induction kvs) auto

lemma decode_result_ok: "(\<exists>r'. decode_result v r = Inr r') \<longleftrightarrow> conforms v"
proof (cases v)
  case (JObject kvs)
  then show ?thesis
    using decode_members_succeeds_iff [of kvs result_field result_member_ok r]
    by (simp add: conforms_members result_field_ok)
qed (simp_all add: conforms_def)



















lemma not_conforming_is_parse_failure:
  assumes "env (Command ''iperf3'' [''--json'', ''-c'', server, ''-p'', port, ''--connect-timeout'', ''1000''])
             = Completes (Exited 0) None (JSON v)"
    and "\<not> conforms v"
  shows "\<exists>e. ExecIPerf3 env server port = Inl (UnmarshalError e)"
proof -
  have "\<not> (\<exists>r. decode_result v zero_result = Inr r)"
    using assms(2) decode_result_ok [of v zero_result] by blast
  then obtain e where "decode_result v zero_result = Inl e"
    by (cases "decode_result v zero_result") auto
  then show ?thesis
    using assms(1) by (simp add: ExecIPerf3_def)
qed







end
